theory Spec2Isabelle
  imports Main
begin

section \<open>Python strings\<close>

text \<open>
  A Python \<open>str\<close> is modelled as a \<open>string\<close> in which every \<open>char\<close> stands for one
  code point in the range U+0000..U+00FF. On that range \<open>str.isspace\<close>, the class
  \<open>\s\<close> of \<open>re\<close> and the whitespace removed by \<open>str.strip()\<close> coincide, and the only
  decimal digits accepted by \<open>int()\<close> are \<open>0\<close>..\<open>9\<close>.
\<close>

definition isspace :: "char \<Rightarrow> bool" where
  "isspace c = (of_char c \<in> set [9, 10, 11, 12, 13, 28, 29, 30, 31, 32, 133, 160 :: nat])"

definition lstrip :: "string \<Rightarrow> string" where
  "lstrip s = dropWhile isspace s"

definition rstrip :: "string \<Rightarrow> string" where
  "rstrip s = rev (dropWhile isspace (rev s))"

text \<open>\<open>s.strip()\<close>\<close>

definition strip :: "string \<Rightarrow> string" where
  "strip s = rstrip (lstrip s)"

text \<open>\<open>s.split(sep)\<close> for a one-character separator: never empty, \<open>''.split(sep) == ['']\<close>.\<close>

fun split_on :: "char \<Rightarrow> string \<Rightarrow> string list" where
  "split_on sep [] = [[]]"
| "split_on sep (c # cs) =
     (if c = sep then [] # split_on sep cs
      else (case split_on sep cs of
              [] \<Rightarrow> [[c]]
            | l # ls \<Rightarrow> (c # l) # ls))"

text \<open>\<open>sep.join(xs)\<close>\<close>

fun join_with :: "string \<Rightarrow> string list \<Rightarrow> string" where
  "join_with sep [] = []"
| "join_with sep [x] = x"
| "join_with sep (x # y # ys) = x @ sep @ join_with sep (y # ys)"

subsection \<open>\<open>int(s)\<close> in base 10\<close>

definition is_digit :: "char \<Rightarrow> bool" where
  "is_digit c = (48 \<le> (of_char c :: nat) \<and> (of_char c :: nat) \<le> 57)"

definition digit_val :: "char \<Rightarrow> nat" where
  "digit_val c = of_char c - 48"

text \<open>
  The digits of a literal: a digit first and last, single underscores allowed between
  two digits (\<open>int('1_000') == 1000\<close>, while \<open>'_1'\<close>, \<open>'1_'\<close> and \<open>'1__0'\<close> are refused).
\<close>

fun digits_ok :: "string \<Rightarrow> bool" where
  "digits_ok [] = False"
| "digits_ok [c] = is_digit c"
| "digits_ok (c # d # cs) =
     (is_digit c \<and> (if d = CHR ''_'' then digits_ok cs else digits_ok (d # cs)))"

definition digits_value :: "string \<Rightarrow> nat" where
  "digits_value ds = foldl (\<lambda>a c. 10 * a + digit_val c) 0 ds"

text \<open>
  The interpreter's default cap on the number of digits of a decimal literal
  (\<open>sys.get_int_max_str_digits()\<close>); underscores and the sign are not counted.
\<close>

definition int_max_str_digits :: nat where
  "int_max_str_digits = 4300"

text \<open>
  \<open>int(s)\<close>: surrounding whitespace is dropped, one optional sign, then the digits.
  \<open>None\<close> is the \<open>ValueError\<close>.
\<close>

definition py_int :: "string \<Rightarrow> int option" where
  "py_int s =
     (case strip s of
        [] \<Rightarrow> None
      | c # cs \<Rightarrow>
          (let neg = (c = CHR ''-'');
               body = (if c = CHR ''-'' \<or> c = CHR ''+'' then cs else c # cs);
               ds = filter (\<lambda>d. d \<noteq> CHR ''_'') body
           in if \<not> digits_ok body then None
              else if length ds > int_max_str_digits then None
              else Some (if neg then - int (digits_value ds) else int (digits_value ds))))"

subsection \<open>Formatting integers\<close>

fun dec_nat :: "nat \<Rightarrow> string" where
  "dec_nat n =
     (if n < 10 then [char_of (48 + n)]
      else dec_nat (n div 10) @ [char_of (48 + n mod 10)])"

declare dec_nat.simps [simp del]

text \<open>\<open>f"{i}"\<close>\<close>

definition str_int :: "int \<Rightarrow> string" where
  "str_int i = (if i < 0 then CHR ''-'' # dec_nat (nat (- i)) else dec_nat (nat i))"

definition zfill :: "nat \<Rightarrow> string \<Rightarrow> string" where
  "zfill w s = replicate (w - length s) CHR ''0'' @ s"

text \<open>\<open>f"{i:03d}"\<close>: the sign counts towards the width of three.\<close>

definition format_03d :: "int \<Rightarrow> string" where
  "format_03d i =
     (if i < 0 then CHR ''-'' # zfill 2 (dec_nat (nat (- i))) else zfill 3 (dec_nat (nat i)))"

section \<open>The subtitle parser\<close>

subsection \<open>\<open>re.split(r'\n\s*\n', s)\<close>\<close>

text \<open>
  \<open>match_sep s\<close> is the rest of \<open>s\<close> after the match of \<open>\n\s*\n\<close> that starts at
  the head of \<open>s\<close>, if there is one. The star is greedy and backtracks: after the first
  newline the match runs through the whitespace that follows, up to the last newline
  in it.
\<close>

definition match_sep :: "string \<Rightarrow> string option" where
  "match_sep s =
     (case s of
        [] \<Rightarrow> None
      | c # cs \<Rightarrow>
          if c \<noteq> CHR 0x0A then None
          else (let run = takeWhile isspace cs;
                    tail = takeWhile (\<lambda>d. d \<noteq> CHR 0x0A) (rev run)
                in if CHR 0x0A \<in> set run then Some (drop (length run - length tail) cs)
                   else None))"

lemma match_sep_shorter: "match_sep (c # cs) = Some r \<Longrightarrow> length r \<le> length cs"
  by (auto simp: match_sep_def Let_def split: if_splits)

text \<open>
  The scan of \<open>re.split\<close>: the leftmost match ends the current piece, and the search
  goes on after it; a character where no match starts joins the current piece.
\<close>

function re_split :: "string \<Rightarrow> string \<Rightarrow> string list" where
  "re_split cur [] = [cur]"
| "re_split cur (c # cs) =
     (case match_sep (c # cs) of
        Some r \<Rightarrow> cur # re_split [] r
      | None \<Rightarrow> re_split (cur @ [c]) cs)"
  by pat_completeness auto
termination
  by (relation "measure (\<lambda>(cur, s). length s)") (auto dest: match_sep_shorter)

subsection \<open>\<open>parse_srt\<close>\<close>

text \<open>The dict built for one subtitle, keys \<open>id\<close>, \<open>timestamp\<close>, \<open>text\<close>.\<close>

record entry =
  sub_id :: int
  timestamp :: string
  sub_text :: string

text \<open>
  What the script prints, one constructor for each \<open>print\<close> call, carrying the
  values the message interpolates.
\<close>

datatype msg =
    Parsing string
  | Warn_block string string
  | Parsed nat
  | Rule_nl
  | Rule
  | Dashes
  | Title_batch
  | Err_srt_missing string
  | Err_ref_missing "string option" "string option"
  | Err_no_subtitles
  | Processing nat
  | Entry_header nat nat int
  | Entry_text string bool
  | Warn_no_ref int
  | Skip string
  | Using_instruct string
  | Saved string
  | Err_entry int string
  | Title_summary
  | Sum_total nat
  | Sum_success nat
  | Sum_skip nat
  | Sum_error nat
  | Sum_rate nat nat

text \<open>
  The loop over the blocks (lines 40-61), with the list \<open>subtitles\<close> and the printed
  warnings as accumulators. The \<open>ValueError\<close> of \<open>int\<close> is the only exception the
  body can raise; its handler prints the first 50 characters of the block and the
  refused literal.
\<close>

fun parse_blocks :: "string list \<Rightarrow> entry list \<Rightarrow> msg list \<Rightarrow> entry list \<times> msg list" where
  "parse_blocks [] subtitles out = (subtitles, out)"
| "parse_blocks (block # blocks) subtitles out =
     (let lines = split_on CHR 0x0A (strip block) in
      if length lines \<ge> 3 then
        (case py_int (strip (lines ! 0)) of
           None \<Rightarrow>
             parse_blocks blocks subtitles
               (out @ [Warn_block (take 50 block) (strip (lines ! 0))])
         | Some subtitle_id \<Rightarrow>
             parse_blocks blocks
               (subtitles @
                  [\<lparr>sub_id = subtitle_id,
                    timestamp = strip (lines ! 1),
                    sub_text = strip (join_with '' '' (drop 2 lines))\<rparr>])
               out)
      else parse_blocks blocks subtitles out)"

text \<open>Line 38: the blocks of the text read from the file.\<close>

definition blocks_of :: "string \<Rightarrow> string list" where
  "blocks_of content = re_split [] (strip content)"

text \<open>Lines 37-63 of \<open>parse_srt\<close>: from the text read from the file to the entries.\<close>

definition parse_content :: "string \<Rightarrow> entry list \<times> msg list" where
  "parse_content content =
     (let (subtitles, out) = parse_blocks (blocks_of content) [] []
      in (subtitles, out @ [Parsed (length subtitles)]))"

section \<open>The file system and the synthesis engine\<close>

text \<open>
  The audio data of the engine (a loaded reference clip, a synthesised utterance) is
  opaque to the script; a number names it.
\<close>

datatype speech = Speech nat

text \<open>
  A file holds text (the characters a UTF-8 decoder reads from it) or audio data,
  which no text decoder accepts. The file system maps a path to what is there; paths
  are compared as written.
\<close>

datatype content = Text string | Audio speech

datatype node = Dir | File content

type_synonym filesys = "string \<rightharpoonup> node"

text \<open>\<open>os.path.exists\<close> and \<open>os.path.isdir\<close>; the empty path never exists.\<close>

definition exists :: "filesys \<Rightarrow> string \<Rightarrow> bool" where
  "exists fs p = (p \<noteq> [] \<and> fs p \<noteq> None)"

definition isdir :: "filesys \<Rightarrow> string \<Rightarrow> bool" where
  "isdir fs p = (p \<noteq> [] \<and> fs p = Some Dir)"

text \<open>\<open>os.path.join(a, b)\<close> of \<open>posixpath\<close>: an absolute \<open>b\<close> replaces \<open>a\<close>.\<close>

definition path_join :: "string \<Rightarrow> string \<Rightarrow> string" where
  "path_join a b =
     (if take 1 b = ''/'' then b
      else if a = [] \<or> last a = CHR ''/'' then a @ b
      else a @ ''/'' @ b)"

text \<open>The exceptions that no handler of the script catches.\<close>

datatype exn = TypeError | FileNotFoundError | IsADirectoryError | UnicodeDecodeError

text \<open>
  Reading in text mode translates \<open>\r\n\<close> and a lone \<open>\r\<close> to \<open>\n\<close> (universal
  newlines, the default of \<open>open\<close>).
\<close>

fun universal_newlines :: "string \<Rightarrow> string" where
  "universal_newlines [] = []"
| "universal_newlines [c] = [if c = CHR 0x0D then CHR 0x0A else c]"
| "universal_newlines (c # d # cs) =
     (if c = CHR 0x0D \<and> d = CHR 0x0A then CHR 0x0A # universal_newlines cs
      else (if c = CHR 0x0D then CHR 0x0A else c) # universal_newlines (d # cs))"

text \<open>\<open>open(p, 'r', encoding='utf-8').read()\<close>\<close>

definition read_text :: "filesys \<Rightarrow> string \<Rightarrow> exn + string" where
  "read_text fs p =
     (if p = [] then Inl FileNotFoundError
      else (case fs p of
              None \<Rightarrow> Inl FileNotFoundError
            | Some Dir \<Rightarrow> Inl IsADirectoryError
            | Some (File (Audio a)) \<Rightarrow> Inl UnicodeDecodeError
            | Some (File (Text s)) \<Rightarrow> Inr (universal_newlines s)))"

text \<open>\<open>parse_srt(srt_file)\<close>: what it prints, and the exception or the entries.\<close>

definition parse_srt :: "string \<Rightarrow> filesys \<Rightarrow> msg list \<times> (exn + entry list)" where
  "parse_srt srt_file fs =
     (case read_text fs srt_file of
        Inl x \<Rightarrow> ([Parsing srt_file], Inl x)
      | Inr content \<Rightarrow>
          (let (subtitles, out) = parse_content content
           in (Parsing srt_file # out, Inr subtitles)))"

section \<open>The reference resolver\<close>

text \<open>The list \<open>patterns\<close> of \<open>find_reference_audio\<close>, in its order.\<close>

definition patterns :: "string \<Rightarrow> int \<Rightarrow> string list" where
  "patterns audio_prefix subtitle_id =
     [audio_prefix @ ''_'' @ format_03d subtitle_id @ ''.wav'',
      audio_prefix @ ''_'' @ format_03d subtitle_id @ ''.mp3'',
      audio_prefix @ ''_'' @ str_int subtitle_id @ ''.wav'',
      audio_prefix @ ''_'' @ str_int subtitle_id @ ''.mp3'',
      audio_prefix @ format_03d subtitle_id @ ''.wav'',
      audio_prefix @ format_03d subtitle_id @ ''.mp3'',
      audio_prefix @ str_int subtitle_id @ ''.wav'',
      audio_prefix @ str_int subtitle_id @ ''.mp3'',
      audio_prefix @ ''_'' @ format_03d subtitle_id @ ''.mp4'',
      audio_prefix @ ''_'' @ format_03d subtitle_id @ ''.m4a'']"

text \<open>The loop over the patterns (lines 86-91).\<close>

fun first_existing :: "filesys \<Rightarrow> string \<Rightarrow> string list \<Rightarrow> string option" where
  "first_existing fs reference_dir [] = None"
| "first_existing fs reference_dir (pattern # rest) =
     (let audio_path = path_join reference_dir pattern in
      if exists fs audio_path then Some audio_path
      else first_existing fs reference_dir rest)"

text \<open>
  \<open>find_reference_audio\<close>; \<open>os.path.join\<close> raises \<open>TypeError\<close> when the directory is
  \<open>None\<close>.
\<close>

definition find_reference_audio ::
  "string option \<Rightarrow> int \<Rightarrow> string \<Rightarrow> filesys \<Rightarrow> exn + string option" where
  "find_reference_audio reference_dir subtitle_id audio_prefix fs =
     (case reference_dir of
        None \<Rightarrow> Inl TypeError
      | Some d \<Rightarrow> Inr (first_existing fs d (patterns audio_prefix subtitle_id)))"

section \<open>The synthesis adapter\<close>

text \<open>
  The engine is outside the script. Each of its entry points either raises (the
  message of the exception) or returns. \<open>inference_zero_shot\<close> and
  \<open>inference_instruct2\<close> return a generator, of which the script takes the first
  result only: the model gives the outcome of that first step, \<open>None\<close> when the
  generator is exhausted at once. The seed set by \<open>set_all_random_seed\<close> just before
  is an argument of the inference. A \<open>save\<close> that raises leaves the file system as it
  was; one that returns has written the file.
\<close>

record engine =
  load_wav :: "string \<Rightarrow> filesys \<Rightarrow> string + speech"
  set_all_random_seed :: "int \<Rightarrow> string option"
  inference_instruct2 :: "int \<Rightarrow> string \<Rightarrow> string \<Rightarrow> speech \<Rightarrow> string + speech option"
  inference_zero_shot :: "int \<Rightarrow> string \<Rightarrow> string \<Rightarrow> speech \<Rightarrow> string + speech option"
  save :: "string \<Rightarrow> speech \<Rightarrow> filesys \<Rightarrow> string option"

text \<open>The keyword arguments of \<open>synthesize_with_cosyvoice\<close>.\<close>

record request =
  rq_text :: string
  rq_prompt_text :: string
  rq_prompt_audio_path :: string
  rq_output_path :: string
  rq_instruct_text :: string
  rq_seed :: int

text \<open>
  What a run does, in order: the lines it prints, the calls of
  \<open>synthesize_with_cosyvoice\<close> with their arguments, and the calls of
  \<open>torchaudio.save\<close>.
\<close>

datatype event = Print msg | Synthesize request | Save string speech

text \<open>
  Lines 283-300 and the first step of the loop of line 303: the outcome of the first
  step of the generator chosen by \<open>instruct_text\<close>.
\<close>

definition inference_first :: "engine \<Rightarrow> request \<Rightarrow> speech \<Rightarrow> string + speech option" where
  "inference_first cosyvoice rq prompt_speech_16k =
     (if rq_instruct_text rq \<noteq> []
      then inference_instruct2 cosyvoice (rq_seed rq) (rq_text rq)
             (rq_instruct_text rq) prompt_speech_16k
      else inference_zero_shot cosyvoice (rq_seed rq) (rq_text rq)
             (rq_prompt_text rq) prompt_speech_16k)"

text \<open>
  \<open>synthesize_with_cosyvoice\<close>: the events, the message of the exception it raises
  (if any) and the file system afterwards.
\<close>

definition synthesize_with_cosyvoice ::
  "engine \<Rightarrow> request \<Rightarrow> filesys \<Rightarrow> event list \<times> string option \<times> filesys" where
  "synthesize_with_cosyvoice cosyvoice rq fs =
     (case load_wav cosyvoice (rq_prompt_audio_path rq) fs of
        Inl e \<Rightarrow> ([Synthesize rq], Some e, fs)
      | Inr prompt_speech_16k \<Rightarrow>
          (case set_all_random_seed cosyvoice (rq_seed rq) of
             Some e \<Rightarrow> ([Synthesize rq], Some e, fs)
           | None \<Rightarrow>
               (let printed =
                      (if rq_instruct_text rq \<noteq> []
                       then [Print (Using_instruct (rq_instruct_text rq))] else [])
                in (case inference_first cosyvoice rq prompt_speech_16k of
                      Inl e \<Rightarrow> (Synthesize rq # printed, Some e, fs)
                    | Inr None \<Rightarrow> (Synthesize rq # printed, None, fs)
                    | Inr (Some tts_speech) \<Rightarrow>
                        (case save cosyvoice (rq_output_path rq) tts_speech fs of
                           Some e \<Rightarrow>
                             (Synthesize rq # printed @ [Save (rq_output_path rq) tts_speech],
                              Some e, fs)
                         | None \<Rightarrow>
                             (Synthesize rq # printed @ [Save (rq_output_path rq) tts_speech],
                              None,
                              fs(rq_output_path rq \<mapsto> File (Audio tts_speech))))))))"

section \<open>The batch orchestrator\<close>

text \<open>The fields of \<open>args\<close> that batch mode reads; \<open>output_dir\<close> is \<open>args.output\<close>.\<close>

record args =
  srt :: string
  reference_dir :: "string option"
  audio_path :: "string option"
  prompt_text :: string
  audio_prefix :: string
  output_prefix :: string
  output_dir :: string
  instruct :: string
  skip_existing :: bool
  seed :: int

text \<open>
  The state of the loop: the file system, the events so far, and the three counters.
\<close>

record tally =
  files :: filesys
  trace :: "event list"
  success_count :: nat
  skip_count :: nat
  error_count :: nat

text \<open>Python's truth value of an optional string: \<open>None\<close> and \<open>''\<close> are false.\<close>

definition truthy :: "string option \<Rightarrow> bool" where
  "truthy v = (case v of None \<Rightarrow> False | Some s \<Rightarrow> s \<noteq> [])"

text \<open>Lines 409-410: the output path of a subtitle.\<close>

definition output_filename :: "args \<Rightarrow> int \<Rightarrow> string" where
  "output_filename a subtitle_id = output_prefix a @ ''_'' @ format_03d subtitle_id @ ''.wav''"

definition output_path :: "args \<Rightarrow> int \<Rightarrow> string" where
  "output_path a subtitle_id = path_join (output_dir a) (output_filename a subtitle_id)"

text \<open>Lines 418-426: the arguments passed to \<open>synthesize_with_cosyvoice\<close>.\<close>

definition synth_request :: "args \<Rightarrow> string \<Rightarrow> entry \<Rightarrow> request" where
  "synth_request a ref_audio subtitle =
     \<lparr>rq_text = sub_text subtitle,
      rq_prompt_text = prompt_text a,
      rq_prompt_audio_path = ref_audio,
      rq_output_path = output_path a (sub_id subtitle),
      rq_instruct_text = instruct a,
      rq_seed = seed a + sub_id subtitle\<rparr>"

text \<open>Lines 392-400: the reference audio of a subtitle.\<close>

definition ref_audio_of :: "args \<Rightarrow> filesys \<Rightarrow> entry \<Rightarrow> exn + string option" where
  "ref_audio_of a fs subtitle =
     (if audio_path a \<noteq> None then Inr (audio_path a)
      else find_reference_audio (reference_dir a) (sub_id subtitle) (audio_prefix a) fs)"

text \<open>
  The body of the loop (lines 386-434) for the subtitle at position \<open>idx\<close>: an
  exception that escapes it (if any) and the state afterwards. The lookup of the
  reference audio stands before the \<open>try\<close>, so its \<open>TypeError\<close> escapes; what the
  adapter raises is caught by \<open>except Exception\<close> and counted. Printing is taken
  to succeed, and an interrupt of the process is outside the model.
\<close>

definition process_entry ::
  "args \<Rightarrow> engine \<Rightarrow> nat \<Rightarrow> nat \<Rightarrow> tally \<Rightarrow> entry \<Rightarrow> exn option \<times> tally" where
  "process_entry a cosyvoice total_n idx st subtitle =
     (let subtitle_id = sub_id subtitle;
          txt = sub_text subtitle;
          st1 = st\<lparr>trace := trace st @
                  [Print (Entry_header idx total_n subtitle_id),
                   Print (Entry_text (take 80 txt) (length txt > 80))]\<rparr>
      in (case ref_audio_of a (files st) subtitle of
            Inl x \<Rightarrow> (Some x, st1)
          | Inr ref_audio \<Rightarrow>
              (case (if truthy ref_audio then ref_audio else None) of
                 None \<Rightarrow>
                   (None, st1\<lparr>trace := trace st1 @ [Print (Warn_no_ref subtitle_id)],
                               error_count := error_count st1 + 1\<rparr>)
               | Some r \<Rightarrow>
                   if skip_existing a \<and> exists (files st) (output_path a subtitle_id)
                   then (None, st1\<lparr>trace := trace st1 @
                                       [Print (Skip (output_filename a subtitle_id))],
                                     skip_count := skip_count st1 + 1\<rparr>)
                   else (case synthesize_with_cosyvoice cosyvoice
                                (synth_request a r subtitle) (files st) of
                           (evs, None, fs') \<Rightarrow>
                             (None, st1\<lparr>files := fs',
                                         trace := trace st1 @ evs @
                                           [Print (Saved (output_filename a subtitle_id))],
                                         success_count := success_count st1 + 1\<rparr>)
                         | (evs, Some e, fs') \<Rightarrow>
                             (None, st1\<lparr>files := fs',
                                         trace := trace st1 @ evs @
                                           [Print (Err_entry subtitle_id e)],
                                         error_count := error_count st1 + 1\<rparr>)))))"

text \<open>The loop of lines 385-434 over the subtitles, numbered from \<open>idx\<close>.\<close>

fun batch_loop ::
  "args \<Rightarrow> engine \<Rightarrow> nat \<Rightarrow> nat \<Rightarrow> tally \<Rightarrow> entry list \<Rightarrow> exn option \<times> tally" where
  "batch_loop a cosyvoice total_n idx st [] = (None, st)"
| "batch_loop a cosyvoice total_n idx st (subtitle # rest) =
     (case process_entry a cosyvoice total_n idx st subtitle of
        (Some x, st') \<Rightarrow> (Some x, st')
      | (None, st') \<Rightarrow> batch_loop a cosyvoice total_n (Suc idx) st' rest)"

text \<open>
  Lines 436-445: the summary. The last line prints \<open>success_count / total * 100\<close>
  to one decimal; \<open>Sum_rate\<close> carries the two operands of the division.
\<close>

definition summary :: "nat \<Rightarrow> tally \<Rightarrow> msg list" where
  "summary total_n st =
     [Rule_nl, Title_summary, Rule,
      Sum_total total_n,
      Sum_success (success_count st),
      Sum_skip (skip_count st),
      Sum_error (error_count st)] @
     (if total_n > 0 then [Sum_rate (success_count st) total_n] else [])"

text \<open>The condition of lines 361-362 under which the run stops at line 364.\<close>

definition ref_check_fails :: "args \<Rightarrow> filesys \<Rightarrow> bool" where
  "ref_check_fails a fs =
     ((case reference_dir a of
         None \<Rightarrow> False
       | Some d \<Rightarrow> d \<noteq> [] \<and> \<not> isdir fs d) \<and>
      \<not> (case audio_path a of
           None \<Rightarrow> False
         | Some p \<Rightarrow> p \<noteq> [] \<and> exists fs p))"

text \<open>How \<open>process_batch_mode\<close> ends.\<close>

datatype exit = Returned_early | Completed | Uncaught exn

record run =
  run_exit :: exit
  run_files :: filesys
  run_trace :: "event list"

text \<open>
  \<open>process_batch_mode\<close>, entered with \<open>--srt\<close> given (so \<open>args.srt\<close> is a string).
\<close>

definition process_batch_mode :: "args \<Rightarrow> engine \<Rightarrow> filesys \<Rightarrow> run" where
  "process_batch_mode a cosyvoice fs =
     (let banner = map Print [Rule_nl, Title_batch, Rule] in
      if \<not> exists fs (srt a)
      then \<lparr>run_exit = Returned_early, run_files = fs,
            run_trace = banner @ [Print (Err_srt_missing (srt a))]\<rparr>
      else if ref_check_fails a fs
      then \<lparr>run_exit = Returned_early, run_files = fs,
            run_trace = banner @
              [Print (Err_ref_missing (audio_path a) (reference_dir a))]\<rparr>
      else (case parse_srt (srt a) fs of
              (out, Inl x) \<Rightarrow>
                \<lparr>run_exit = Uncaught x, run_files = fs,
                 run_trace = banner @ map Print out\<rparr>
            | (out, Inr subtitles) \<Rightarrow>
                if subtitles = []
                then \<lparr>run_exit = Returned_early, run_files = fs,
                      run_trace = banner @ map Print out @ [Print Err_no_subtitles]\<rparr>
                else (let total_n = length subtitles;
                          st0 = \<lparr>files = fs,
                                 trace = banner @ map Print out @
                                   [Print (Processing total_n), Print Dashes],
                                 success_count = 0, skip_count = 0, error_count = 0\<rparr>
                      in (case batch_loop a cosyvoice total_n 1 st0 subtitles of
                            (Some x, st) \<Rightarrow>
                              \<lparr>run_exit = Uncaught x, run_files = files st,
                               run_trace = trace st\<rparr>
                          | (None, st) \<Rightarrow>
                              \<lparr>run_exit = Completed, run_files = files st,
                               run_trace = trace st @ map Print (summary total_n st)\<rparr>))))"

section \<open>The parser's contract\<close>

text \<open>
  The entry of one block in the words of the parser's contract: at least three lines,
  the first an integer, the second the timestamp, the others joined with single
  spaces; timestamp and text without surrounding whitespace. \<open>None\<close> when the
  block is omitted.
\<close>

definition spec_block_entry :: "string \<Rightarrow> entry option" where
  "spec_block_entry block =
     (let ls = split_on CHR 0x0A (strip block) in
      if length ls < 3 then None
      else (case py_int (strip (hd ls)) of
              None \<Rightarrow> None
            | Some i \<Rightarrow>
                Some \<lparr>sub_id = i, timestamp = strip (ls ! 1),
                      sub_text = strip (join_with '' '' (drop 2 ls))\<rparr>))"

text \<open>The diagnostic of one block: only a block of at least three lines has one.\<close>

definition spec_block_warning :: "string \<Rightarrow> msg option" where
  "spec_block_warning block =
     (let ls = split_on CHR 0x0A (strip block) in
      if 3 \<le> length ls \<and> py_int (strip (hd ls)) = None
      then Some (Warn_block (take 50 block) (strip (hd ls)))
      else None)"

section \<open>File systems between two runs\<close>


text \<open>Every path that exists in the first file system exists in the second.\<close>

definition grows :: "filesys \<Rightarrow> filesys \<Rightarrow> bool" where
  "grows fs fs' = (\<forall>p. exists fs p \<longrightarrow> exists fs' p)"

section \<open>Reading a trace\<close>

text \<open>
  The script keeps no record per subtitle: it prints one status line and adds one to
  a counter. The outcome of a subtitle is read from its status line.
\<close>

datatype outcome = Success | Skipped | Error

fun outcome_of :: "event \<Rightarrow> outcome option" where
  "outcome_of (Print (Saved f)) = Some Success"
| "outcome_of (Print (Skip f)) = Some Skipped"
| "outcome_of (Print (Warn_no_ref i)) = Some Error"
| "outcome_of (Print (Err_entry i e)) = Some Error"
| "outcome_of ev = None"

definition outcomes :: "event list \<Rightarrow> outcome list" where
  "outcomes evs = List.map_filter outcome_of evs"

text \<open>The header line \<open>[idx/total] ID: id\<close> that opens the work on a subtitle.\<close>

fun header_of :: "event \<Rightarrow> (nat \<times> nat \<times> int) option" where
  "header_of (Print (Entry_header idx total_n i)) = Some (idx, total_n, i)"
| "header_of ev = None"

definition headers :: "event list \<Rightarrow> (nat \<times> nat \<times> int) list" where
  "headers evs = List.map_filter header_of evs"

text \<open>The calls of the synthesis adapter and the writes, in order.\<close>

fun request_of :: "event \<Rightarrow> request option" where
  "request_of (Synthesize rq) = Some rq"
| "request_of ev = None"

definition requests :: "event list \<Rightarrow> request list" where
  "requests evs = List.map_filter request_of evs"

fun save_of :: "event \<Rightarrow> (string \<times> speech) option" where
  "save_of (Save p sp) = Some (p, sp)"
| "save_of ev = None"

definition saves :: "event list \<Rightarrow> (string \<times> speech) list" where
  "saves evs = List.map_filter save_of evs"

section \<open>Example inputs\<close>

text \<open>
  An engine that loads any existing clip, never fails otherwise, and names the
  utterance after the length of the text.
\<close>

definition engine_ok :: engine where
  "engine_ok =
     \<lparr>load_wav = (\<lambda>p fs. if exists fs p then Inr (Speech 0) else Inl ''no such file''),
      set_all_random_seed = (\<lambda>s. None),
      inference_instruct2 = (\<lambda>s t i w. Inr (Some (Speech (length t)))),
      inference_zero_shot = (\<lambda>s t p w. Inr (Some (Speech (length t)))),
      save = (\<lambda>p sp fs. None)\<rparr>"

text \<open>The default arguments of batch mode over a reference directory.\<close>

definition args_dir :: args where
  "args_dir =
     \<lparr>srt = ''subs.srt'', reference_dir = Some ''refs'', audio_path = None,
      prompt_text = [], audio_prefix = ''segment'', output_prefix = ''clone'',
      output_dir = ''outputs_cosyvoice'', instruct = [], skip_existing = False,
      seed = 42\<rparr>"


definition fs_five :: filesys where
  "fs_five =
     [''refs'' \<mapsto> Dir,
      ''refs/segment_001.wav'' \<mapsto> File (Audio (Speech 1)),
      ''refs/segment_002.wav'' \<mapsto> File (Audio (Speech 2)),
      ''refs/segment_004.wav'' \<mapsto> File (Audio (Speech 4)),
      ''refs/segment_005.wav'' \<mapsto> File (Audio (Speech 5))]"

definition tally0 :: "filesys \<Rightarrow> tally" where
  "tally0 fs = \<lparr>files = fs, trace = [], success_count = 0, skip_count = 0, error_count = 0\<rparr>"


text \<open>A reference directory with two clips that both fit subtitle 5.\<close>

definition fs_example :: filesys where
  "fs_example =
     [''refs'' \<mapsto> Dir,
      ''refs/segment_005.wav'' \<mapsto> File (Audio (Speech 1)),
      ''refs/segment5.mp3'' \<mapsto> File (Audio (Speech 2))]"

text \<open>The two-subtitle document of the end-to-end example, and its file system.\<close>

definition doc_two :: string where
  "doc_two = ''1\<newline>00:00:01,000 --> 00:00:02,000\<newline>Hello\<newline>\<newline>2\<newline>00:00:02,000 --> 00:00:03,000\<newline>World\<newline>''"

definition fs_two :: filesys where
  "fs_two =
     [''subs.srt'' \<mapsto> File (Text doc_two),
      ''refs'' \<mapsto> Dir,
      ''refs/segment_001.wav'' \<mapsto> File (Audio (Speech 1)),
      ''refs/segment_002.wav'' \<mapsto> File (Audio (Speech 2))]"

definition fs_done :: filesys where
  "fs_done = fs_five(''outputs_cosyvoice/clone_003.wav'' \<mapsto> File (Audio (Speech 45)))"

definition entry3 :: entry where
  "entry3 = \<lparr>sub_id = 3, timestamp = ''00:00:01,000 --> 00:00:02,000'', sub_text = ''Hello''\<rparr>"

text \<open>Batch mode with a shared audio path that does not exist, and with no reference source.\<close>

definition args_missing_audio :: args where
  "args_missing_audio = args_dir\<lparr>reference_dir := None, audio_path := Some ''missing.wav''\<rparr>"

definition args_no_reference :: args where
  "args_no_reference = args_dir\<lparr>reference_dir := None, audio_path := None\<rparr>"

text \<open>
  Documents: four blocks of which the second has no integer id and the third is too
  short; a block with padded second and third lines; a block of two lines.
\<close>

definition doc_mixed :: string where
  "doc_mixed = ''1\<newline>t1\<newline>Hello\<newline>world\<newline>\<newline>x\<newline>t\<newline>bad id\<newline>\<newline>3\<newline>short\<newline>\<newline>\<newline>4\<newline> t4 \<newline>  Bye''"

definition doc_padded :: string where
  "doc_padded = ''1\<newline> 00:01 \<newline>  Hello''"

definition doc_short :: string where
  "doc_short = ''1\<newline>00:00:01,000 --> 00:00:02,000''"








section \<open>Properties of the reference resolver\<close>

lemma first_existing_None:
  "first_existing fs d ps = None \<longleftrightarrow> (\<forall>c\<in>set ps. \<not> exists fs (path_join d c))"
  by (induction ps) (auto simp: Let_def)

lemma first_existing_Some:
  "first_existing fs d ps = Some path \<Longrightarrow>
     \<exists>k<length ps. path = path_join d (ps ! k) \<and> exists fs path \<and>
        (\<forall>j<k. \<not> exists fs (path_join d (ps ! j)))"
proof (induction ps)
  case Nil
  then show ?case by simp
next
  case (Cons c ps)
  show ?case
  proof (cases "exists fs (path_join d c)")
    case True
    with Cons.prems have "path = path_join d c" by (simp add: Let_def)
    with True show ?thesis by (intro exI[of _ 0]) simp
  next
    case False
    with Cons.prems have "first_existing fs d ps = Some path" by (simp add: Let_def)
    from Cons.IH[OF this] obtain k where k: "k < length ps" "path = path_join d (ps ! k)"
      "exists fs path" "\<forall>j<k. \<not> exists fs (path_join d (ps ! j))" by blast
    have "\<forall>j<Suc k. \<not> exists fs (path_join d ((c # ps) ! j))"
      using False k(4) by (auto simp: less_Suc_eq_0_disj)
    with k show ?thesis by (intro exI[of _ "Suc k"]) simp
  qed
qed

lemma patterns_5: "patterns ''segment'' 5 =
  [''segment_005.wav'', ''segment_005.mp3'', ''segment_5.wav'', ''segment_5.mp3'',
   ''segment005.wav'', ''segment005.mp3'', ''segment5.wav'', ''segment5.mp3'',
   ''segment_005.mp4'', ''segment_005.m4a'']"
  by code_simp

text \<open>
  C3. \<open>find_reference_audio\<close> on a directory returns the first candidate, in the
  order of the pattern list, that exists on the file system, and \<open>None\<close> when no
  candidate exists; with id 5 and prefix \<open>segment\<close>, a directory holding both
  \<open>segment_005.wav\<close> and \<open>segment5.mp3\<close> gives the path of \<open>segment_005.wav\<close>.
\<close>

theorem find_reference_audio_first_match:
  "(\<exists>r. find_reference_audio (Some d) i p fs = Inr r \<and>
      (case r of
         None \<Rightarrow> \<forall>c\<in>set (patterns p i). \<not> exists fs (path_join d c)
       | Some path \<Rightarrow>
           \<exists>k<length (patterns p i). path = path_join d (patterns p i ! k) \<and>
              exists fs path \<and> (\<forall>j<k. \<not> exists fs (path_join d (patterns p i ! j))))) \<and>
   (exists fs (path_join d ''segment_005.wav'') \<longrightarrow>
    exists fs (path_join d ''segment5.mp3'') \<longrightarrow>
      find_reference_audio (Some d) 5 ''segment'' fs = Inr (Some (path_join d ''segment_005.wav'')))"
proof (intro conjI impI)
  show "\<exists>r. find_reference_audio (Some d) i p fs = Inr r \<and>
      (case r of
         None \<Rightarrow> \<forall>c\<in>set (patterns p i). \<not> exists fs (path_join d c)
       | Some path \<Rightarrow>
           \<exists>k<length (patterns p i). path = path_join d (patterns p i ! k) \<and>
              exists fs path \<and> (\<forall>j<k. \<not> exists fs (path_join d (patterns p i ! j))))"
  proof (cases "first_existing fs d (patterns p i)")
    case None
    then have "\<forall>c\<in>set (patterns p i). \<not> exists fs (path_join d c)"
      by (simp add: first_existing_None)
    with None show ?thesis
      by (simp add: find_reference_audio_def)
  next
    case (Some path)
    from first_existing_Some[OF this] Some show ?thesis
      by (simp add: find_reference_audio_def)
  qed
next
  assume "exists fs (path_join d ''segment_005.wav'')"
  then show "find_reference_audio (Some d) 5 ''segment'' fs = Inr (Some (path_join d ''segment_005.wav''))"
    by (simp add: find_reference_audio_def patterns_5 Let_def)
qed

theorem find_reference_audio_first_match_witness:
  "exists fs_example ''refs/segment_005.wav'' \<and> exists fs_example ''refs/segment5.mp3'' \<and>
   find_reference_audio (Some ''refs'') 5 ''segment'' fs_example = Inr (Some ''refs/segment_005.wav'') \<and>
   find_reference_audio (Some ''refs'') 6 ''segment'' fs_example = Inr None"
proof -
  have j: "path_join ''refs'' ''segment_005.wav'' = ''refs/segment_005.wav''"
          "path_join ''refs'' ''segment5.mp3'' = ''refs/segment5.mp3''"
    by (simp_all add: path_join_def)
  have e: "exists fs_example ''refs/segment_005.wav''" "exists fs_example ''refs/segment5.mp3''"
    by (simp_all add: exists_def fs_example_def)
  have n: "find_reference_audio (Some ''refs'') 6 ''segment'' fs_example = Inr None"
    by code_simp
  from find_reference_audio_first_match[of "''refs''" 5 "''segment''" fs_example] e j n
  show ?thesis by simp
qed

section \<open>Properties of the batch loop\<close>


lemma map_filter_app: "List.map_filter f (xs @ ys) = List.map_filter f xs @ List.map_filter f ys"
  by (simp add: List.map_filter_def)

lemma outcomes_append [simp]: "outcomes (xs @ ys) = outcomes xs @ outcomes ys"
  by (simp add: outcomes_def map_filter_app)
lemma headers_append [simp]: "headers (xs @ ys) = headers xs @ headers ys"
  by (simp add: headers_def map_filter_app)
lemma requests_append [simp]: "requests (xs @ ys) = requests xs @ requests ys"
  by (simp add: requests_def map_filter_app)
lemma saves_append [simp]: "saves (xs @ ys) = saves xs @ saves ys"
  by (simp add: saves_def map_filter_app)

lemma outcomes_simps [simp]:
  "outcomes [] = []"
  "outcomes (ev # evs) = (case outcome_of ev of None \<Rightarrow> outcomes evs | Some v \<Rightarrow> v # outcomes evs)"
  by (simp_all add: outcomes_def split: option.splits)
lemma headers_simps [simp]:
  "headers [] = []"
  "headers (ev # evs) = (case header_of ev of None \<Rightarrow> headers evs | Some v \<Rightarrow> v # headers evs)"
  by (simp_all add: headers_def split: option.splits)
lemma requests_simps [simp]:
  "requests [] = []"
  "requests (ev # evs) = (case request_of ev of None \<Rightarrow> requests evs | Some v \<Rightarrow> v # requests evs)"
  by (simp_all add: requests_def split: option.splits)
lemma saves_simps [simp]:
  "saves [] = []"
  "saves (ev # evs) = (case save_of ev of None \<Rightarrow> saves evs | Some v \<Rightarrow> v # saves evs)"
  by (simp_all add: saves_def split: option.splits)

lemma synth_events:
  assumes "synthesize_with_cosyvoice eng rq fs = (evs, r, fs')"
  shows "outcomes evs = []" and "headers evs = []" and "requests evs = [rq]"
  using assms
  by (auto simp: synthesize_with_cosyvoice_def Let_def split: sum.splits option.splits if_splits)

lemma synth_files:
  assumes "synthesize_with_cosyvoice eng rq fs = (evs, r, fs')"
  shows "fs' = fs \<and> saves evs = [] \<or>
         (\<exists>sp. r = None \<and> fs' = fs(rq_output_path rq \<mapsto> File (Audio sp)) \<and> saves evs = [(rq_output_path rq, sp)])
         \<or> (\<exists>sp. r \<noteq> None \<and> fs' = fs \<and> saves evs = [(rq_output_path rq, sp)])"
  using assms
  by (auto simp: synthesize_with_cosyvoice_def Let_def split: sum.splits option.splits if_splits)








text \<open>
  C9. The reference audio is looked up before the output file is checked: a subtitle
  whose reference audio is not found is counted as an error, with no call of the
  synthesis adapter, whether or not \<open>skip_existing\<close> is set and its output file
  exists.
\<close>

theorem unresolved_reference_is_error:
  assumes "ref_audio_of a (files st) e = Inr r" and "\<not> truthy r"
  shows "\<exists>st'. process_entry a eng n idx st e = (None, st') \<and>
           outcomes (trace st') = outcomes (trace st) @ [Error] \<and>
           requests (trace st') = requests (trace st) \<and>
           files st' = files st \<and>
           error_count st' = error_count st + 1 \<and>
           skip_count st' = skip_count st \<and>
           success_count st' = success_count st"
  using assms by (simp add: process_entry_def Let_def)

theorem unresolved_reference_is_error_witness:
  "skip_existing (args_dir\<lparr>skip_existing := True\<rparr>) \<and>
   exists fs_done (output_path (args_dir\<lparr>skip_existing := True\<rparr>) (sub_id entry3)) \<and>
   ref_audio_of (args_dir\<lparr>skip_existing := True\<rparr>) fs_done entry3 = Inr None \<and>
   (\<exists>st'. process_entry (args_dir\<lparr>skip_existing := True\<rparr>) engine_ok 5 3 (tally0 fs_done) entry3 = (None, st') \<and>
      outcomes (trace st') = [Error] \<and> error_count st' = 1 \<and> skip_count st' = 0)"
proof -
  have s: "skip_existing (args_dir\<lparr>skip_existing := True\<rparr>)"
    by simp
  have x: "exists fs_done (output_path (args_dir\<lparr>skip_existing := True\<rparr>) (sub_id entry3))"
    by code_simp
  have r: "ref_audio_of (args_dir\<lparr>skip_existing := True\<rparr>) (files (tally0 fs_done)) entry3 = Inr None"
    by code_simp
  have t: "\<not> truthy None"
    by (simp add: truthy_def)
  from unresolved_reference_is_error[OF r t, of engine_ok 5 3] s x r
  show ?thesis by (auto simp: tally0_def)
qed


lemma requests_prints [simp]: "requests (map Print ms) = []"
  by (induction ms) simp_all

lemma outcomes_summary [simp]: "outcomes (map Print (summary n st)) = []"
  by (simp add: summary_def)

lemma process_entry_requests:
  assumes "process_entry a eng n idx st e = (x, st')"
  shows "\<exists>rs. requests (trace st') = requests (trace st) @ rs \<and>
           (\<forall>rq\<in>set rs. rq_seed rq = seed a + sub_id e \<and> rq_text rq = sub_text e \<and>
              rq_output_path rq = output_path a (sub_id e))"
proof (cases "ref_audio_of a (files st) e")
  case (Inl err)
  with assms show ?thesis by (auto simp: process_entry_def Let_def)
next
  case (Inr r)
  show ?thesis
  proof (cases "truthy r")
    case False
    with Inr assms show ?thesis by (auto simp: process_entry_def Let_def)
  next
    case True
    then obtain p where p: "r = Some p" by (cases r) (auto simp: truthy_def)
    show ?thesis
    proof (cases "skip_existing a \<and> exists (files st) (output_path a (sub_id e))")
      case True
      with Inr p \<open>truthy r\<close> assms show ?thesis by (auto simp: process_entry_def Let_def)
    next
      case False
      obtain evs res fs' where s:
        "synthesize_with_cosyvoice eng (synth_request a p e) (files st) = (evs, res, fs')"
        by (cases "synthesize_with_cosyvoice eng (synth_request a p e) (files st)") auto
      from synth_events(3)[OF s] False Inr p \<open>truthy r\<close> s assms
      have "requests (trace st') = requests (trace st) @ [synth_request a p e]"
        by (cases res) (auto simp: process_entry_def Let_def)
      then show ?thesis
        by (intro exI[of _ "[synth_request a p e]"]) (simp add: synth_request_def)
    qed
  qed
qed

lemma batch_loop_requests:
  "batch_loop a eng n idx st es = (x, st') \<Longrightarrow>
     \<exists>rs. requests (trace st') = requests (trace st) @ rs \<and>
          (\<forall>rq\<in>set rs. \<exists>e\<in>set es. rq_seed rq = seed a + sub_id e \<and>
             rq_text rq = sub_text e \<and> rq_output_path rq = output_path a (sub_id e))"
proof (induction es arbitrary: idx st)
  case Nil
  then show ?case by simp
next
  case (Cons e es)
  obtain y st1 where 1: "process_entry a eng n idx st e = (y, st1)"
    by (cases "process_entry a eng n idx st e") auto
  from process_entry_requests[OF 1] obtain r1 where
    r1: "requests (trace st1) = requests (trace st) @ r1"
        "\<forall>rq\<in>set r1. rq_seed rq = seed a + sub_id e \<and> rq_text rq = sub_text e \<and>
              rq_output_path rq = output_path a (sub_id e)"
    by blast
  show ?case
  proof (cases y)
    case (Some err)
    with 1 Cons.prems have "st' = st1" by simp
    with r1 show ?thesis by auto
  next
    case None
    with 1 Cons.prems have "batch_loop a eng n (Suc idx) st1 es = (x, st')" by simp
    from Cons.IH[OF this] obtain r2 where
      r2: "requests (trace st') = requests (trace st1) @ r2"
          "\<forall>rq\<in>set r2. \<exists>e\<in>set es. rq_seed rq = seed a + sub_id e \<and>
             rq_text rq = sub_text e \<and> rq_output_path rq = output_path a (sub_id e)"
      by blast
    have "requests (trace st') = requests (trace st) @ (r1 @ r2)"
      using r1(1) r2(1) by simp
    moreover have "\<forall>rq\<in>set (r1 @ r2). \<exists>e'\<in>set (e # es). rq_seed rq = seed a + sub_id e' \<and>
             rq_text rq = sub_text e' \<and> rq_output_path rq = output_path a (sub_id e')"
      using r1(2) r2(2) by auto
    ultimately show ?thesis by blast
  qed
qed

lemma process_batch_mode_requests:
  assumes "rq \<in> set (requests (run_trace (process_batch_mode a eng fs)))"
  shows "\<exists>out es. parse_srt (srt a) fs = (out, Inr es) \<and>
           (\<exists>e\<in>set es. rq_seed rq = seed a + sub_id e \<and>
             rq_text rq = sub_text e \<and> rq_output_path rq = output_path a (sub_id e))"
proof -
  obtain out res where p: "parse_srt (srt a) fs = (out, res)"
    by (cases "parse_srt (srt a) fs") auto
  show ?thesis
  proof (cases res)
    case (Inl err)
    with p assms show ?thesis
      by (auto simp: process_batch_mode_def Let_def split: if_splits)
  next
    case (Inr es)
    let ?st0 = "\<lparr>files = fs,
                  trace = map Print [Rule_nl, Title_batch, Rule] @ map Print out @
                    [Print (Processing (length es)), Print Dashes],
                  success_count = 0, skip_count = 0, error_count = 0\<rparr>"
    obtain y st where l: "batch_loop a eng (length es) 1 ?st0 es = (y, st)"
      by (cases "batch_loop a eng (length es) 1 ?st0 es") auto
    from batch_loop_requests[OF l] obtain rs where
      rs: "requests (trace st) = requests (trace ?st0) @ rs"
          "\<forall>rq\<in>set rs. \<exists>e\<in>set es. rq_seed rq = seed a + sub_id e \<and>
             rq_text rq = sub_text e \<and> rq_output_path rq = output_path a (sub_id e)"
      by blast
    have z: "requests (trace ?st0) = []" by simp
    from assms p Inr l have "rq \<in> set (requests (trace st))"
      by (cases y) (auto simp: process_batch_mode_def Let_def split: if_splits)
    with rs z have "\<exists>e\<in>set es. rq_seed rq = seed a + sub_id e \<and>
             rq_text rq = sub_text e \<and> rq_output_path rq = output_path a (sub_id e)" by simp
    with p Inr show ?thesis by simp
  qed
qed

text \<open>
  C4. Every call of the synthesis adapter made by a batch run is for a parsed subtitle
  and passes the seed \<open>args.seed + id\<close>. Two runs with the same base seed pass the
  same seed for the same id; another base seed changes the seed of every subtitle,
  and the difference between the seeds of two subtitles stays the same.
\<close>

theorem synthesis_seed_is_base_plus_id:
  "(\<forall>rq\<in>set (requests (run_trace (process_batch_mode a eng fs))).
      \<exists>out es. parse_srt (srt a) fs = (out, Inr es) \<and>
        (\<exists>e\<in>set es. rq_seed rq = seed a + sub_id e \<and> rq_text rq = sub_text e \<and>
           rq_output_path rq = output_path a (sub_id e))) \<and>
   rq_seed (synth_request a r e) = seed a + sub_id e \<and>
   (seed a = seed a' \<and> sub_id e = sub_id e' \<longrightarrow>
      rq_seed (synth_request a r e) = rq_seed (synth_request a' r' e')) \<and>
   (seed a \<noteq> seed a' \<longrightarrow>
      rq_seed (synth_request a r e) \<noteq> rq_seed (synth_request a' r' e)) \<and>
   rq_seed (synth_request a r e1) - rq_seed (synth_request a r e2) =
     rq_seed (synth_request a' r' e1) - rq_seed (synth_request a' r' e2)"
proof -
  have "\<forall>rq\<in>set (requests (run_trace (process_batch_mode a eng fs))).
      \<exists>out es. parse_srt (srt a) fs = (out, Inr es) \<and>
        (\<exists>e\<in>set es. rq_seed rq = seed a + sub_id e \<and> rq_text rq = sub_text e \<and>
           rq_output_path rq = output_path a (sub_id e))"
    using process_batch_mode_requests by blast
  then show ?thesis
    by (simp add: synth_request_def)
qed

theorem synthesis_seed_is_base_plus_id_witness:
  "map sub_id (case snd (parse_srt (srt args_dir) fs_two) of Inr es \<Rightarrow> es | Inl x \<Rightarrow> []) = [1, 2] \<and>
   seed args_dir = 42 \<and>
   map rq_seed (requests (run_trace (process_batch_mode args_dir engine_ok fs_two))) = [43, 44] \<and>
   map rq_output_path (requests (run_trace (process_batch_mode args_dir engine_ok fs_two))) =
     [''outputs_cosyvoice/clone_001.wav'', ''outputs_cosyvoice/clone_002.wav''] \<and>
   map rq_seed (requests (run_trace (process_batch_mode (args_dir\<lparr>seed := 100\<rparr>) engine_ok fs_two))) =
     [101, 102] \<and>
   rq_seed (synth_request args_dir ''refs/segment_003.wav'' entry3) = 45 \<and>
   rq_seed (synth_request (args_dir\<lparr>seed := 100\<rparr>) ''refs/segment_003.wav'' entry3) = 103"
proof -
  have p: "map sub_id (case snd (parse_srt (srt args_dir) fs_two) of Inr es \<Rightarrow> es | Inl x \<Rightarrow> []) = [1, 2]"
    by code_simp
  have s: "seed args_dir = 42"
    by (simp add: args_dir_def)
  have r1: "map rq_seed (requests (run_trace (process_batch_mode args_dir engine_ok fs_two))) = [43, 44]"
    by code_simp
  have r2: "map rq_output_path (requests (run_trace (process_batch_mode args_dir engine_ok fs_two))) =
     [''outputs_cosyvoice/clone_001.wav'', ''outputs_cosyvoice/clone_002.wav'']"
    by code_simp
  have r3: "map rq_seed (requests (run_trace (process_batch_mode (args_dir\<lparr>seed := 100\<rparr>) engine_ok fs_two))) =
     [101, 102]"
    by code_simp
  have e: "sub_id entry3 = 3"
    by (simp add: entry3_def)
  from synthesis_seed_is_base_plus_id[of args_dir engine_ok fs_two "''refs/segment_003.wav''" entry3]
  have a: "rq_seed (synth_request args_dir ''refs/segment_003.wav'' entry3) = 45"
    using s e by simp
  from synthesis_seed_is_base_plus_id[of "args_dir\<lparr>seed := 100\<rparr>" engine_ok fs_two "''refs/segment_003.wav''" entry3]
  have b: "rq_seed (synth_request (args_dir\<lparr>seed := 100\<rparr>) ''refs/segment_003.wav'' entry3) = 103"
    using e by simp
  from p s r1 r2 r3 a b show ?thesis by blast
qed

section \<open>Properties of a whole batch run\<close>

lemma outcomes_prints_parse [simp]:
  "outcomes (map Print [Rule_nl, Title_batch, Rule] @ map Print out @ [Print (Processing n), Print Dashes]) =
     outcomes (map Print out)"
  by simp





text \<open>
  C6. The check of lines 361-364 is entered only when \<open>args.reference_dir\<close> is set.
  With a shared audio path that does not exist the run goes on: it works on both
  subtitles, calls the synthesis adapter for each and counts two errors. With no
  reference source at all the \<open>TypeError\<close> of \<open>os.path.join\<close> escapes at the first
  subtitle.
\<close>

theorem preflight_misses_absent_audio_path:
  "\<not> exists fs_two ''missing.wav'' \<and>
   run_exit (process_batch_mode args_missing_audio engine_ok fs_two) = Completed \<and>
   headers (run_trace (process_batch_mode args_missing_audio engine_ok fs_two)) =
     [(1, 2, 1), (2, 2, 2)] \<and>
   map rq_prompt_audio_path
     (requests (run_trace (process_batch_mode args_missing_audio engine_ok fs_two))) =
     [''missing.wav'', ''missing.wav''] \<and>
   outcomes (run_trace (process_batch_mode args_missing_audio engine_ok fs_two)) = [Error, Error] \<and>
   run_exit (process_batch_mode args_no_reference engine_ok fs_two) = Uncaught TypeError \<and>
   headers (run_trace (process_batch_mode args_no_reference engine_ok fs_two)) = [(1, 2, 1)]"
  by code_simp

text \<open>The three early returns of lines 355-370 leave the subtitles untouched.\<close>

lemma early_return_processes_nothing:
  assumes "\<not> exists fs (srt a) \<or> ref_check_fails a fs \<or> (\<exists>out. parse_srt (srt a) fs = (out, Inr []))"
  shows "run_exit (process_batch_mode a eng fs) \<noteq> Completed \<and>
         run_files (process_batch_mode a eng fs) = fs \<and>
         headers (run_trace (process_batch_mode a eng fs)) = [] \<and>
         requests (run_trace (process_batch_mode a eng fs)) = []"
proof -
  have h: "headers (map Print [Rule_nl, Title_batch, Rule]) = []" by simp
  have hp: "headers (map Print out) = []" if "parse_srt f fs = (out, res)" for f out res
  proof -
    have pb: "parse_blocks bs subs o1 = (subs', o2) \<Longrightarrow> headers (map Print o1) = [] \<Longrightarrow>
          headers (map Print o2) = []" for bs subs o1 subs' o2
      by (induction bs arbitrary: subs o1) (auto simp: Let_def split: if_splits option.splits)
    show ?thesis
    proof (cases "read_text fs f")
      case (Inl x)
      with that show ?thesis by (auto simp: parse_srt_def)
    next
      case (Inr content)
      obtain subs o1 where p: "parse_blocks (blocks_of content) [] [] = (subs, o1)"
        by (cases "parse_blocks (blocks_of content) [] []") auto
      from pb[OF p] have "headers (map Print o1) = []" by simp
      with that Inr p show ?thesis by (auto simp: parse_srt_def parse_content_def)
    qed
  qed
  obtain out res where p: "parse_srt (srt a) fs = (out, res)"
    by (cases "parse_srt (srt a) fs") auto
  from assms hp[OF p] p show ?thesis
    by (cases res) (auto simp: process_batch_mode_def Let_def)
qed

section \<open>Properties of the parser\<close>

lemma parse_blocks_spec:
  "parse_blocks bs subs out =
     (subs @ List.map_filter spec_block_entry bs, out @ List.map_filter spec_block_warning bs)"
proof (induction bs arbitrary: subs out)
  case Nil
  show ?case by simp
next
  case (Cons b bs)
  show ?case
  proof (cases "3 \<le> length (split_on CHR 0x0A (strip b))")
    case False
    then show ?thesis
      by (simp add: Cons.IH spec_block_entry_def spec_block_warning_def Let_def)
  next
    case True
    then have hd: "hd (split_on CHR 0x0A (strip b)) = split_on CHR 0x0A (strip b) ! 0"
      by (cases "split_on CHR 0x0A (strip b)") auto
    show ?thesis
    proof (cases "py_int (strip (split_on CHR 0x0A (strip b) ! 0))")
      case None
      with True hd show ?thesis
        by (simp add: Cons.IH spec_block_entry_def spec_block_warning_def Let_def)
    next
      case (Some i)
      with True hd show ?thesis
        by (simp add: Cons.IH spec_block_entry_def spec_block_warning_def Let_def)
    qed
  qed
qed

lemma map_filter_all_None: "(\<forall>x\<in>set xs. f x = None) \<Longrightarrow> List.map_filter f xs = []"
  by (induction xs) simp_all

text \<open>
  C2 (amended). The entries returned for a document are, in document order, the
  entries of its well-formed blocks: first line read by \<open>int\<close>, second line
  stripped of surrounding whitespace as timestamp, the remaining lines joined with
  single spaces and then stripped as text. A block with a first line that is not an
  integer or with fewer than three lines is omitted, and the blocks before and after
  it are parsed as without it. A document whose blocks are all malformed, and the
  empty document, give no entry.
\<close>

theorem parse_content_entries:
  "fst (parse_content doc) = List.map_filter spec_block_entry (blocks_of doc) \<and>
   (spec_block_entry b = None \<longrightarrow>
      fst (parse_blocks (bs1 @ b # bs2) [] []) =
        fst (parse_blocks bs1 [] []) @ fst (parse_blocks bs2 [] [])) \<and>
   ((\<forall>b\<in>set (blocks_of doc). spec_block_entry b = None) \<longrightarrow> fst (parse_content doc) = []) \<and>
   fst (parse_content []) = []"
proof (intro conjI impI)
  show e: "fst (parse_content doc) = List.map_filter spec_block_entry (blocks_of doc)" for doc
    by (simp add: parse_content_def parse_blocks_spec)
  show "fst (parse_blocks (bs1 @ b # bs2) [] []) =
        fst (parse_blocks bs1 [] []) @ fst (parse_blocks bs2 [] [])"
    if "spec_block_entry b = None"
    using that by (simp add: parse_blocks_spec map_filter_app)
  show "fst (parse_content doc) = []" if "\<forall>b\<in>set (blocks_of doc). spec_block_entry b = None"
    using that by (simp add: e map_filter_all_None)
  have "blocks_of [] = [[]]"
    by (simp add: blocks_of_def strip_def lstrip_def rstrip_def)
  then show "fst (parse_content []) = []"
    by (simp add: e spec_block_entry_def strip_def lstrip_def rstrip_def)
qed


theorem parse_content_entries_witness:
  "blocks_of doc_mixed =
     [''1\<newline>t1\<newline>Hello\<newline>world'', ''x\<newline>t\<newline>bad id'', ''3\<newline>short'',
      ''4\<newline> t4 \<newline>  Bye''] \<and>
   spec_block_entry ''x\<newline>t\<newline>bad id'' = None \<and>
   spec_block_entry ''3\<newline>short'' = None \<and>
   fst (parse_content doc_mixed) =
     [\<lparr>sub_id = 1, timestamp = ''t1'', sub_text = ''Hello world''\<rparr>,
      \<lparr>sub_id = 4, timestamp = ''t4'', sub_text = ''Bye''\<rparr>] \<and>
   fst (parse_content ''x\<newline>t\<newline>bad id\<newline>\<newline>3\<newline>short'') = []"
proof -
  have b: "blocks_of doc_mixed =
     [''1\<newline>t1\<newline>Hello\<newline>world'', ''x\<newline>t\<newline>bad id'', ''3\<newline>short'',
      ''4\<newline> t4 \<newline>  Bye'']"
    by code_simp
  have n1: "spec_block_entry ''x\<newline>t\<newline>bad id'' = None" by code_simp
  have n2: "spec_block_entry ''3\<newline>short'' = None" by code_simp
  have m: "List.map_filter spec_block_entry (blocks_of doc_mixed) =
     [\<lparr>sub_id = 1, timestamp = ''t1'', sub_text = ''Hello world''\<rparr>,
      \<lparr>sub_id = 4, timestamp = ''t4'', sub_text = ''Bye''\<rparr>]"
    by code_simp
  have b2: "blocks_of ''x\<newline>t\<newline>bad id\<newline>\<newline>3\<newline>short'' = [''x\<newline>t\<newline>bad id'', ''3\<newline>short'']"
    by code_simp
  from parse_content_entries[of doc_mixed] m
  have e: "fst (parse_content doc_mixed) =
     [\<lparr>sub_id = 1, timestamp = ''t1'', sub_text = ''Hello world''\<rparr>,
      \<lparr>sub_id = 4, timestamp = ''t4'', sub_text = ''Bye''\<rparr>]"
    by simp
  from parse_content_entries[of "''x\<newline>t\<newline>bad id\<newline>\<newline>3\<newline>short''"] b2 n1 n2
  have z: "fst (parse_content ''x\<newline>t\<newline>bad id\<newline>\<newline>3\<newline>short'') = []"
    by simp
  from b n1 n2 e z show ?thesis by blast
qed

text \<open>
  C2 as stated fails: the second line \<open>" 00:01 "\<close> is not kept verbatim, and the
  joined text \<open>"  Hello"\<close> loses its leading spaces.
\<close>

theorem timestamp_is_stripped:
  "split_on CHR 0x0A doc_padded = [''1'', '' 00:01 '', ''  Hello''] \<and>
   fst (parse_content doc_padded) =
     [\<lparr>sub_id = 1, timestamp = ''00:01'', sub_text = ''Hello''\<rparr>]"
  by code_simp

text \<open>
  C7 (amended). The parser prints one diagnostic, in document order, for each block
  of at least three lines whose first line is not an integer, and none for a block
  of fewer than three lines; both kinds of block yield no entry, and the blocks
  before and after are parsed as without them.
\<close>

theorem parse_content_warnings:
  "snd (parse_content doc) =
     List.map_filter spec_block_warning (blocks_of doc) @
     [Parsed (length (fst (parse_content doc)))] \<and>
   (length (split_on CHR 0x0A (strip b)) < 3 \<longrightarrow>
      spec_block_warning b = None \<and> spec_block_entry b = None) \<and>
   (3 \<le> length (split_on CHR 0x0A (strip b)) \<and>
    py_int (strip (hd (split_on CHR 0x0A (strip b)))) = None \<longrightarrow>
      spec_block_warning b =
        Some (Warn_block (take 50 b) (strip (hd (split_on CHR 0x0A (strip b))))) \<and>
      spec_block_entry b = None) \<and>
   parse_blocks (bs1 @ b # bs2) [] [] =
     (fst (parse_blocks bs1 [] []) @ fst (parse_blocks [b] [] []) @ fst (parse_blocks bs2 [] []),
      snd (parse_blocks bs1 [] []) @ snd (parse_blocks [b] [] []) @ snd (parse_blocks bs2 [] []))"
proof (intro conjI impI)
  show "snd (parse_content doc) =
     List.map_filter spec_block_warning (blocks_of doc) @
     [Parsed (length (fst (parse_content doc)))]"
    by (simp add: parse_content_def parse_blocks_spec)
  show "spec_block_warning b = None" "spec_block_entry b = None"
    if "length (split_on CHR 0x0A (strip b)) < 3"
    using that by (simp_all add: spec_block_warning_def spec_block_entry_def Let_def)
  show "spec_block_warning b =
        Some (Warn_block (take 50 b) (strip (hd (split_on CHR 0x0A (strip b)))))"
       "spec_block_entry b = None"
    if "3 \<le> length (split_on CHR 0x0A (strip b)) \<and>
        py_int (strip (hd (split_on CHR 0x0A (strip b)))) = None"
    using that by (simp_all add: spec_block_warning_def spec_block_entry_def Let_def)
  show "parse_blocks (bs1 @ b # bs2) [] [] =
     (fst (parse_blocks bs1 [] []) @ fst (parse_blocks [b] [] []) @ fst (parse_blocks bs2 [] []),
      snd (parse_blocks bs1 [] []) @ snd (parse_blocks [b] [] []) @ snd (parse_blocks bs2 [] []))"
    by (simp add: parse_blocks_spec map_filter_app del: parse_blocks.simps split: option.splits)
qed

theorem parse_content_warnings_witness:
  "length (split_on CHR 0x0A (strip ''3\<newline>short'')) = 2 \<and>
   spec_block_warning ''3\<newline>short'' = None \<and>
   py_int (strip (hd (split_on CHR 0x0A (strip ''x\<newline>t\<newline>bad id'')))) = None \<and>
   spec_block_warning ''x\<newline>t\<newline>bad id'' = Some (Warn_block ''x\<newline>t\<newline>bad id'' ''x'') \<and>
   snd (parse_content doc_mixed) = [Warn_block ''x\<newline>t\<newline>bad id'' ''x'', Parsed 2]"
proof -
  have l: "length (split_on CHR 0x0A (strip ''3\<newline>short'')) = 2" by code_simp
  have i: "py_int (strip (hd (split_on CHR 0x0A (strip ''x\<newline>t\<newline>bad id'')))) = None"
    by code_simp
  have l3: "length (split_on CHR 0x0A (strip ''x\<newline>t\<newline>bad id'')) = 3" by code_simp
  have h: "strip (hd (split_on CHR 0x0A (strip ''x\<newline>t\<newline>bad id''))) = ''x''" by code_simp
  have m: "List.map_filter spec_block_warning (blocks_of doc_mixed) =
             [Warn_block ''x\<newline>t\<newline>bad id'' ''x'']"
    by code_simp
  have n: "length (fst (parse_content doc_mixed)) = 2" by code_simp
  from parse_content_warnings[of doc_mixed "''3\<newline>short''"] l
  have w1: "spec_block_warning ''3\<newline>short'' = None" by simp
  from parse_content_warnings[of doc_mixed "''x\<newline>t\<newline>bad id''"] l3 i h
  have w2: "spec_block_warning ''x\<newline>t\<newline>bad id'' = Some (Warn_block ''x\<newline>t\<newline>bad id'' ''x'')"
    by simp
  from parse_content_warnings[of doc_mixed] m n
  have w3: "snd (parse_content doc_mixed) = [Warn_block ''x\<newline>t\<newline>bad id'' ''x'', Parsed 2]"
    by simp
  from l i w1 w2 w3 show ?thesis by blast
qed

text \<open>
  C7 as stated fails: a block of two lines yields no entry and nothing is printed
  for it but the final count.
\<close>

theorem short_block_has_no_diagnostic:
  "blocks_of doc_short = [''1\<newline>00:00:01,000 --> 00:00:02,000''] \<and>
   length (split_on CHR 0x0A (strip ''1\<newline>00:00:01,000 --> 00:00:02,000'')) = 2 \<and>
   parse_content doc_short = ([], [Parsed 0])"
  by code_simp

section \<open>Subtitles that share an id\<close>







section \<open>Running a batch twice\<close>

lemma grows_refl [simp]: "grows fs fs"
  by (simp add: grows_def)















end
